theory Spec2Isabelle
  imports Main
begin

section \<open>Python values\<close>

text \<open>
  The exceptions the core can raise. \<open>ValueError\<close> stands for the rules engine's
  \<open>ValueError\<close> family (invalid FEN, invalid coordinate text, invalid or ambiguous SAN) and
  for the one raised by \<open>Settings.get_difficulty_range\<close>; \<open>AssertionError\<close> is what the
  rules engine raises when asked for the SAN of a move that cannot be played on the board; the
  two application exceptions carry their message.
\<close>

datatype error =
    ValueError
  | IndexError
  | AssertionError
  | InvalidMoveError string
  | PuzzleNotFoundError string

text \<open>
  Subscripting a Python list with an integer: \<open>xs[i]\<close> reads position \<open>i\<close>, or position
  \<open>len(xs) + i\<close> for \<open>-len(xs) \<le> i < 0\<close>, and raises \<open>IndexError\<close> elsewhere.
\<close>

definition py_get :: "'a list \<Rightarrow> int \<Rightarrow> error + 'a" where
  "py_get xs i =
     (if 0 \<le> i \<and> i < int (length xs) then Inr (xs ! nat i)
      else if - int (length xs) \<le> i \<and> i < 0 then Inr (xs ! nat (int (length xs) + i))
      else Inl IndexError)"

text \<open>
  \<open>str.strip()\<close> without arguments removes leading and trailing whitespace. Characters
  are read as code points below 256, where Python's whitespace is 9..13, 28..32, 133, 160.
\<close>

definition py_isspace :: "char \<Rightarrow> bool" where
  "py_isspace c = (of_char c \<in> {9, 10, 11, 12, 13, 28, 29, 30, 31, 32, 133, 160 :: nat})"

definition strip :: "string \<Rightarrow> string" where
  "strip s = rev (dropWhile py_isspace (rev (dropWhile py_isspace s)))"

section \<open>The chess rules engine, as a parameter\<close>

text \<open>
  \<open>chess.Move\<close>: two moves are equal iff from-square, to-square and promotion piece are
  equal, which is equality of this record.
\<close>

record move =
  from_square :: nat
  to_square :: nat
  promotion :: "nat option"

text \<open>
  The third-party rules library is not part of the repository; the validator is modelled
  over any engine with the operations the source calls, on a board type \<open>'b\<close>:
  \<^item> \<open>board_from_fen\<close> is \<open>chess.Board(fen)\<close>, \<open>None\<close> when it raises \<open>ValueError\<close>;
  \<^item> \<open>from_uci\<close> is \<open>chess.Move.from_uci\<close>, \<open>None\<close> when it raises \<open>ValueError\<close>;
  \<^item> \<open>parse_san\<close> is \<open>board.parse_san\<close>, \<open>None\<close> when it raises \<open>ValueError\<close>;
  \<^item> \<open>legal\<close> is \<open>move in board.legal_moves\<close>;
  \<^item> \<open>push\<close> is \<open>board.push\<close>, which applies a move without checking its legality.
    The source calls it unguarded and says nothing of a failure, and it is taken here as
    always returning a board; what the library does with a move it cannot apply is outside
    this model;
  \<^item> \<open>san\<close> is \<open>board.san\<close>, the SAN text of a move, \<open>None\<close> when it raises
    \<open>AssertionError\<close>, as it does for a move that is neither legal nor null on the board
    (no piece stands on its from-square).
\<close>

record 'b engine =
  board_from_fen :: "string \<Rightarrow> 'b option"
  from_uci :: "string \<Rightarrow> move option"
  parse_san :: "'b \<Rightarrow> string \<Rightarrow> move option"
  legal :: "'b \<Rightarrow> move \<Rightarrow> bool"
  push :: "'b \<Rightarrow> move \<Rightarrow> 'b"
  san :: "'b \<Rightarrow> move \<Rightarrow> string option"

section \<open>data/models.py: Puzzle\<close>

record Puzzle =
  puzzle_id :: string
  fen :: string
  moves :: "string list"
  rating :: int
  rating_deviation :: int
  popularity :: int
  nb_plays :: int
  themes :: "string list"
  game_url :: string
  opening_tags :: "string list"
  piece_count :: int

text \<open>The property \<open>Puzzle.solution_moves\<close>: \<open>self.moves[1:]\<close>.\<close>

definition Puzzle_solution_moves :: "Puzzle \<Rightarrow> string list" where
  "Puzzle_solution_moves p = drop 1 (moves p)"

section \<open>core/move\_validator.py: MoveValidator\<close>

record 'b MoveValidator =
  puzzle :: Puzzle
  board :: 'b
  solution_moves :: "string list"
  current_move_index :: int

text \<open>
  \<open>_setup_board\<close>: the board of the puzzle's FEN with \<open>moves[0]\<close> pushed. The source
  evaluates \<open>chess.Board(fen)\<close>, then \<open>moves[0]\<close>, then \<open>Move.from_uci\<close>, then \<open>push\<close>.
\<close>

definition setup_board :: "'b engine \<Rightarrow> Puzzle \<Rightarrow> error + 'b" where
  "setup_board eng p =
     (case board_from_fen eng (fen p) of
        None \<Rightarrow> Inl ValueError
      | Some b \<Rightarrow>
          (case py_get (moves p) 0 of
             Inl e \<Rightarrow> Inl e
           | Inr m0 \<Rightarrow>
               (case from_uci eng m0 of
                  None \<Rightarrow> Inl ValueError
                | Some first_move \<Rightarrow> Inr (push eng b first_move))))"

text \<open>\<open>__init__\<close>: an exception of \<open>_setup_board\<close> leaves no validator.\<close>

definition MoveValidator_init :: "'b engine \<Rightarrow> Puzzle \<Rightarrow> error + 'b MoveValidator" where
  "MoveValidator_init eng p =
     (case setup_board eng p of
        Inl e \<Rightarrow> Inl e
      | Inr b \<Rightarrow>
          Inr \<lparr>puzzle = p, board = b, solution_moves = Puzzle_solution_moves p,
               current_move_index = 0\<rparr>)"

definition is_complete :: "'b MoveValidator \<Rightarrow> bool" where
  "is_complete v = (current_move_index v \<ge> int (length (solution_moves v)))"

definition get_current_board :: "'b MoveValidator \<Rightarrow> 'b" where
  "get_current_board v = board v"

definition get_current_solution_move :: "'b MoveValidator \<Rightarrow> error + string option" where
  "get_current_solution_move v =
     (if current_move_index v \<ge> int (length (solution_moves v)) then Inr None
      else (case py_get (solution_moves v) (current_move_index v) of
              Inl e \<Rightarrow> Inl e
            | Inr s \<Rightarrow> Inr (Some s)))"

definition get_moves_remaining :: "'b MoveValidator \<Rightarrow> int" where
  "get_moves_remaining v = max 0 (int (length (solution_moves v)) - current_move_index v)"

text \<open>
  \<open>reset\<close>: the new board is computed before either field is assigned, so an exception of
  \<open>_setup_board\<close> leaves the validator as it was.
\<close>

definition reset :: "'b engine \<Rightarrow> 'b MoveValidator \<Rightarrow> 'b MoveValidator \<times> (error + unit)" where
  "reset eng v =
     (case setup_board eng (puzzle v) of
        Inl e \<Rightarrow> (v, Inl e)
      | Inr b \<Rightarrow> (v\<lparr>board := b, current_move_index := 0\<rparr>, Inr ()))"

text \<open>
  \<open>_parse_move\<close>: SAN first; then coordinate text, kept only when the move is legal on the
  current board; otherwise \<open>InvalidMoveError\<close> with the stripped input in its message.
\<close>

definition invalid_format_message :: "string \<Rightarrow> string" where
  "invalid_format_message s =
     ''Invalid move format: '' @ [CHR 0x27] @ s @ [CHR 0x27] @ ''. '' @
     ''Use algebraic notation like 'Nf3', 'e4', 'Qxd5', or UCI like 'g1f3'' @ [CHR 0x27]"

definition parse_move :: "'b engine \<Rightarrow> 'b MoveValidator \<Rightarrow> string \<Rightarrow> error + move" where
  "parse_move eng v user_input =
     (let s = strip user_input in
      case parse_san eng (board v) s of
        Some m \<Rightarrow> Inr m
      | None \<Rightarrow>
          (case from_uci eng s of
             Some m \<Rightarrow>
               (if legal eng (board v) m then Inr m
                else Inl (InvalidMoveError (invalid_format_message s)))
           | None \<Rightarrow> Inl (InvalidMoveError (invalid_format_message s))))"

definition msg_illegal :: string where
  "msg_illegal = ''Illegal move. That move is not allowed in this position.''"

definition msg_already_complete :: string where
  "msg_already_complete = ''Puzzle already complete!''"

definition msg_incorrect :: string where
  "msg_incorrect = ''Incorrect. Try again or type 'hint' for help.''"

definition msg_solved :: string where
  "msg_solved = ''Puzzle solved! Well done!''"

definition msg_continue :: string where
  "msg_continue = ''Correct! Continue...''"

text \<open>
  \<open>validate_move\<close> mutates the validator and either returns \<open>(is_correct, message)\<close> or
  lets an exception escape; the model returns the validator as it is left together with
  the outcome, \<open>Inl\<close> for an exception that reaches the caller. Only \<open>InvalidMoveError\<close>
  from \<open>_parse_move\<close> is caught; \<open>Move.from_uci\<close> on a stored solution move is not
  guarded, and neither is \<open>board.san(expected_move)\<close>, which the source evaluates on the
  incorrect-move path before it returns, although the text it yields is not used.
\<close>

definition apply_opponent ::
  "'b engine \<Rightarrow> 'b MoveValidator \<Rightarrow> 'b MoveValidator \<times> (error + bool \<times> string)" where
  "apply_opponent eng v1 =
     (if current_move_index v1 < int (length (solution_moves v1)) then
        (case py_get (solution_moves v1) (current_move_index v1) of
           Inl e \<Rightarrow> (v1, Inl e)
         | Inr opponent_move_uci \<Rightarrow>
             (case from_uci eng opponent_move_uci of
                None \<Rightarrow> (v1, Inl ValueError)
              | Some opponent_move \<Rightarrow>
                  (let v2 = v1\<lparr>board := push eng (board v1) opponent_move,
                                current_move_index := current_move_index v1 + 1\<rparr>
                   in if is_complete v2 then (v2, Inr (True, msg_solved))
                      else (v2, Inr (True, msg_continue)))))
      else (v1, Inr (True, msg_solved)))"

definition validate_move ::
  "'b engine \<Rightarrow> 'b MoveValidator \<Rightarrow> string \<Rightarrow> 'b MoveValidator \<times> (error + bool \<times> string)" where
  "validate_move eng v user_input =
     (case parse_move eng v user_input of
        Inl (InvalidMoveError e) \<Rightarrow> (v, Inr (False, e))
      | Inl e \<Rightarrow> (v, Inl e)
      | Inr m \<Rightarrow>
          if \<not> legal eng (board v) m then (v, Inr (False, msg_illegal))
          else if current_move_index v \<ge> int (length (solution_moves v))
          then (v, Inr (False, msg_already_complete))
          else
            (case py_get (solution_moves v) (current_move_index v) of
               Inl e \<Rightarrow> (v, Inl e)
             | Inr expected_uci \<Rightarrow>
                 (case from_uci eng expected_uci of
                    None \<Rightarrow> (v, Inl ValueError)
                  | Some expected_move \<Rightarrow>
                      if m \<noteq> expected_move then
                        (case san eng (board v) expected_move of
                           None \<Rightarrow> (v, Inl AssertionError)
                         | Some expected_san \<Rightarrow> (v, Inr (False, msg_incorrect)))
                      else
                        (let v1 = v\<lparr>board := push eng (board v) m,
                                     current_move_index := current_move_index v + 1\<rparr>
                         in if is_complete v1 then (v1, Inr (True, msg_solved))
                            else apply_opponent eng v1))))"


text \<open>
  What \<open>solution_moves[current_move_index]\<close> denotes as a move, when it exists and is
  well-formed coordinate text; and the range the cursor stays in.
\<close>

definition expected_move :: "'b engine \<Rightarrow> 'b MoveValidator \<Rightarrow> move option" where
  "expected_move eng v =
     (case py_get (solution_moves v) (current_move_index v) of
        Inl e \<Rightarrow> None
      | Inr u \<Rightarrow> from_uci eng u)"

definition valid_cursor :: "'b MoveValidator \<Rightarrow> bool" where
  "valid_cursor v =
     (0 \<le> current_move_index v \<and> current_move_index v \<le> int (length (solution_moves v)))"

section \<open>config: difficulty ranges and theme keyword lists\<close>

definition ENDGAME_PIECE_THRESHOLD :: int where
  "ENDGAME_PIECE_THRESHOLD = 12"

definition ENDGAME_THEMES :: "string list" where
  "ENDGAME_THEMES =
     [''endgame'', ''mateIn1'', ''mateIn2'', ''mateIn3'', ''mateIn4'', ''mateIn5'',
      ''promotion'', ''queenEndgame'', ''rookEndgame'', ''bishopEndgame'',
      ''knightEndgame'', ''pawnEndgame'']"

definition OPENING_THEMES :: "string list" where
  "OPENING_THEMES = [''opening'', ''openingVariation'', ''trap'']"

text \<open>\<open>Settings.get_difficulty_range\<close> over the \<open>Difficulty\<close> enum.\<close>

definition get_difficulty_range :: "int \<Rightarrow> error + int \<times> int" where
  "get_difficulty_range difficulty =
     (if difficulty = 1 then Inr (600, 1200)
      else if difficulty = 2 then Inr (1200, 1600)
      else if difficulty = 3 then Inr (1600, 2000)
      else if difficulty = 4 then Inr (2000, 2400)
      else if difficulty = 5 then Inr (2400, 3000)
      else Inl ValueError)"

text \<open>\<open>PuzzleManager._rating_to_difficulty\<close>.\<close>

definition rating_to_difficulty :: "int \<Rightarrow> int" where
  "rating_to_difficulty r =
     (if r < 1200 then 1
      else if r < 1600 then 2
      else if r < 2000 then 3
      else if r < 2400 then 4
      else 5)"

section \<open>The puzzle store\<close>

text \<open>
  A row of table \<open>puzzles\<close> together with the theme names linked to it through
  \<open>puzzle_themes\<close> and \<open>themes\<close>. \<open>moves\<close> and \<open>opening_tags\<close> are the stored texts
  (space-separated and comma-separated).
\<close>

record puzzle_row =
  row_puzzle_id :: string
  row_fen :: string
  row_moves :: string
  row_rating :: int
  row_rating_deviation :: int
  row_popularity :: int
  row_nb_plays :: int
  row_game_url :: string
  row_opening_tags :: string
  row_piece_count :: int
  row_themes :: "string list"

text \<open>
  SQL conditions are three-valued: \<open>None\<close> is NULL, and a row passes a WHERE clause only
  when the clause is true.
\<close>

type_synonym sqlbool = "bool option"

fun sql_or :: "sqlbool \<Rightarrow> sqlbool \<Rightarrow> sqlbool" where
  "sql_or (Some True) b = Some True"
| "sql_or a (Some True) = Some True"
| "sql_or (Some False) (Some False) = Some False"
| "sql_or a b = None"

fun sql_and :: "sqlbool \<Rightarrow> sqlbool \<Rightarrow> sqlbool" where
  "sql_and (Some False) b = Some False"
| "sql_and a (Some False) = Some False"
| "sql_and (Some True) (Some True) = Some True"
| "sql_and a b = None"

definition sql_not :: "sqlbool \<Rightarrow> sqlbool" where
  "sql_not a = map_option Not a"

definition sql_in :: "string option \<Rightarrow> string list \<Rightarrow> sqlbool" where
  "sql_in x xs = map_option (\<lambda>t. t \<in> set xs) x"

definition sql_is_null :: "string option \<Rightarrow> sqlbool" where
  "sql_is_null x = Some (x = None)"

text \<open>
  \<open>FROM puzzles p LEFT JOIN puzzle_themes pt ... LEFT JOIN themes t ...\<close>: one joined row
  per theme of the puzzle, and one with a NULL theme for a puzzle without themes.
\<close>

definition joined_rows :: "puzzle_row \<Rightarrow> (puzzle_row \<times> string option) list" where
  "joined_rows p =
     (if row_themes p = [] then [(p, None)]
      else map (\<lambda>t. (p, Some t)) (row_themes p))"

type_synonym where_clause = "puzzle_row \<times> string option \<Rightarrow> sqlbool"

section \<open>core/puzzle\_selector.py: PuzzleSelector\<close>

text \<open>
  \<open>_build_phase_filter\<close>: the SQL clause with its parameters bound, as a condition on a
  joined row \<open>(p, t)\<close>.
\<close>

definition build_phase_filter :: "string \<Rightarrow> where_clause" where
  "build_phase_filter game_phase =
     (if game_phase = ''opening'' then
        (\<lambda>(p, t). sql_or (Some (row_opening_tags p \<noteq> [])) (sql_in t OPENING_THEMES))
      else if game_phase = ''endgame'' then
        (\<lambda>(p, t). sql_or (Some (row_piece_count p < ENDGAME_PIECE_THRESHOLD))
                           (sql_in t ENDGAME_THEMES))
      else
        (\<lambda>(p, t). sql_and (Some (row_piece_count p \<ge> ENDGAME_PIECE_THRESHOLD))
                            (sql_or (sql_is_null t) (sql_not (sql_in t ENDGAME_THEMES)))))"

text \<open>Python's \<open>str.split()\<close> and \<open>str.split(',')\<close>.\<close>

fun split_where :: "(char \<Rightarrow> bool) \<Rightarrow> string \<Rightarrow> string list" where
  "split_where sep [] = [[]]"
| "split_where sep (x # xs) =
     (if sep x then [] # split_where sep xs
      else (case split_where sep xs of
              [] \<Rightarrow> [[x]]
            | w # ws \<Rightarrow> (x # w) # ws))"

definition py_split :: "string \<Rightarrow> string list" where
  "py_split s = filter (\<lambda>w. w \<noteq> []) (split_where py_isspace s)"

definition py_split_on :: "char \<Rightarrow> string \<Rightarrow> string list" where
  "py_split_on c s = split_where (\<lambda>x. x = c) s"

definition row_to_puzzle :: "puzzle_row \<Rightarrow> Puzzle" where
  "row_to_puzzle row =
     \<lparr>puzzle_id = row_puzzle_id row,
      fen = row_fen row,
      moves = py_split (row_moves row),
      rating = row_rating row,
      rating_deviation = row_rating_deviation row,
      popularity = row_popularity row,
      nb_plays = row_nb_plays row,
      themes = row_themes row,
      game_url = row_game_url row,
      opening_tags =
        (if row_opening_tags row \<noteq> [] then py_split_on CHR '','' (row_opening_tags row)
         else []),
      piece_count = row_piece_count row\<rparr>"

text \<open>
  \<open>_query_puzzle\<close>. The WHERE clauses are collected in the source's order and joined with
  AND (\<open>1=1\<close> when there is none); \<open>SELECT DISTINCT p.*\<close> keeps a puzzle when one of its
  joined rows passes. \<open>ORDER BY RANDOM() LIMIT 1\<close> returns one of the matching puzzles: the
  choice is the parameter \<open>pick\<close>, which gives an index into the matching puzzles.
  \<open>game_phase\<close> and \<open>theme\<close> are tested for truth, so the empty string filters nothing.
\<close>

definition truthy :: "string option \<Rightarrow> bool" where
  "truthy x = (case x of None \<Rightarrow> False | Some s \<Rightarrow> s \<noteq> [])"

definition where_clauses ::
  "(int \<times> int) option \<Rightarrow> string option \<Rightarrow> string set \<Rightarrow> bool \<Rightarrow> string option
     \<Rightarrow> where_clause list" where
  "where_clauses rating_range game_phase solved_puzzle_ids exclude_solved theme =
     (case rating_range of
        None \<Rightarrow> []
      | Some (min_rating, max_rating) \<Rightarrow>
          [\<lambda>(p, t). Some (min_rating \<le> row_rating p \<and> row_rating p \<le> max_rating)])
     @ (if truthy game_phase then [build_phase_filter (the game_phase)] else [])
     @ (if truthy theme then [\<lambda>(p, t). map_option (\<lambda>n. n = the theme) t] else [])
     @ (if exclude_solved \<and> solved_puzzle_ids \<noteq> {}
        then [\<lambda>(p, t). Some (row_puzzle_id p \<notin> solved_puzzle_ids)] else [])"

definition passes :: "where_clause list \<Rightarrow> puzzle_row \<times> string option \<Rightarrow> bool" where
  "passes cs j = (foldl sql_and (Some True) (map (\<lambda>c. c j) cs) = Some True)"

definition matching :: "where_clause list \<Rightarrow> puzzle_row list \<Rightarrow> puzzle_row list" where
  "matching cs db = filter (\<lambda>p. \<exists>j \<in> set (joined_rows p). passes cs j) db"

definition query_puzzle ::
  "(puzzle_row list \<Rightarrow> nat) \<Rightarrow> puzzle_row list \<Rightarrow> int option \<Rightarrow> string option
     \<Rightarrow> string set \<Rightarrow> bool \<Rightarrow> string option \<Rightarrow> error + Puzzle option" where
  "query_puzzle pick db difficulty game_phase solved_puzzle_ids exclude_solved theme =
     (case (case difficulty of
              None \<Rightarrow> Inr None
            | Some d \<Rightarrow> map_sum id Some (get_difficulty_range d)) of
        Inl e \<Rightarrow> Inl e
      | Inr rating_range \<Rightarrow>
          (let ms = matching
                      (where_clauses rating_range game_phase solved_puzzle_ids exclude_solved theme)
                      db
           in if ms = [] then Inr None
              else Inr (Some (row_to_puzzle (ms ! (pick ms mod length ms))))))"

text \<open>The loop \<open>for adj_diff in [difficulty - 1, difficulty + 1]\<close> of \<open>select_puzzle\<close>.\<close>

fun try_adjacent ::
  "(puzzle_row list \<Rightarrow> nat) \<Rightarrow> puzzle_row list \<Rightarrow> string option \<Rightarrow> string set
     \<Rightarrow> string option \<Rightarrow> int list \<Rightarrow> error + Puzzle option" where
  "try_adjacent pick db game_phase solved theme [] = Inr None"
| "try_adjacent pick db game_phase solved theme (adj_diff # rest) =
     (if 1 \<le> adj_diff \<and> adj_diff \<le> 5 then
        (case query_puzzle pick db (Some adj_diff) game_phase solved False theme of
           Inl e \<Rightarrow> Inl e
         | Inr (Some p) \<Rightarrow> Inr (Some p)
         | Inr None \<Rightarrow> try_adjacent pick db game_phase solved theme rest)
      else try_adjacent pick db game_phase solved theme rest)"

text \<open>
  \<open>select_puzzle\<close>. The default \<open>solved_puzzle_ids = None\<close> is replaced by the empty set
  on entry, so the parameter is a set here.
\<close>

definition msg_no_puzzles :: string where
  "msg_no_puzzles = ''No puzzles available in database''"

definition select_puzzle ::
  "(puzzle_row list \<Rightarrow> nat) \<Rightarrow> puzzle_row list \<Rightarrow> int \<Rightarrow> string option \<Rightarrow> string set
     \<Rightarrow> string option \<Rightarrow> error + Puzzle" where
  "select_puzzle pick db difficulty game_phase solved_puzzle_ids theme =
     (case query_puzzle pick db (Some difficulty) game_phase solved_puzzle_ids True theme of
        Inl e \<Rightarrow> Inl e
      | Inr (Some p) \<Rightarrow> Inr p
      | Inr None \<Rightarrow>
     (case (if solved_puzzle_ids \<noteq> {}
            then query_puzzle pick db (Some difficulty) game_phase solved_puzzle_ids False theme
            else Inr None) of
        Inl e \<Rightarrow> Inl e
      | Inr (Some p) \<Rightarrow> Inr p
      | Inr None \<Rightarrow>
     (case try_adjacent pick db game_phase solved_puzzle_ids theme
             [difficulty - 1, difficulty + 1] of
        Inl e \<Rightarrow> Inl e
      | Inr (Some p) \<Rightarrow> Inr p
      | Inr None \<Rightarrow>
     (case query_puzzle pick db (Some difficulty) None solved_puzzle_ids False theme of
        Inl e \<Rightarrow> Inl e
      | Inr (Some p) \<Rightarrow> Inr p
      | Inr None \<Rightarrow>
     (case (if truthy theme
            then query_puzzle pick db (Some difficulty) game_phase solved_puzzle_ids False None
            else Inr None) of
        Inl e \<Rightarrow> Inl e
      | Inr (Some p) \<Rightarrow> Inr p
      | Inr None \<Rightarrow>
     (case query_puzzle pick db None None solved_puzzle_ids False None of
        Inl e \<Rightarrow> Inl e
      | Inr (Some p) \<Rightarrow> Inr p
      | Inr None \<Rightarrow> Inl (PuzzleNotFoundError msg_no_puzzles)))))))"

section \<open>The fallback cascade, as the specification words it\<close>

text \<open>
  The specification describes \<open>select\<close> as an ordered list of queries evaluated until one
  returns a puzzle: (1) difficulty, phase and theme with the exclusion set; (2) the same without
  exclusion; (3) difficulty - 1, then difficulty + 1, each only inside 1..5; (4) without the
  phase; (5) without the theme, only when a theme was supplied; (6) without any constraint.
  These definitions follow that wording, to be compared with \<open>select_puzzle\<close>.
\<close>

record query =
  q_difficulty :: "int option"
  q_phase :: "string option"
  q_theme :: "string option"
  q_exclude :: bool

definition run_query ::
  "(puzzle_row list \<Rightarrow> nat) \<Rightarrow> puzzle_row list \<Rightarrow> string set \<Rightarrow> query
     \<Rightarrow> error + Puzzle option" where
  "run_query pick db solved q =
     query_puzzle pick db (q_difficulty q) (q_phase q) solved (q_exclude q) (q_theme q)"

definition cascade_tiers :: "int \<Rightarrow> string option \<Rightarrow> string option \<Rightarrow> query list" where
  "cascade_tiers d ph th =
     [\<lparr>q_difficulty = Some d, q_phase = ph, q_theme = th, q_exclude = True\<rparr>,
      \<lparr>q_difficulty = Some d, q_phase = ph, q_theme = th, q_exclude = False\<rparr>]
     @ (if 1 \<le> d - 1 \<and> d - 1 \<le> 5
        then [\<lparr>q_difficulty = Some (d - 1), q_phase = ph, q_theme = th, q_exclude = False\<rparr>]
        else [])
     @ (if 1 \<le> d + 1 \<and> d + 1 \<le> 5
        then [\<lparr>q_difficulty = Some (d + 1), q_phase = ph, q_theme = th, q_exclude = False\<rparr>]
        else [])
     @ [\<lparr>q_difficulty = Some d, q_phase = None, q_theme = th, q_exclude = False\<rparr>]
     @ (if truthy th
        then [\<lparr>q_difficulty = Some d, q_phase = ph, q_theme = None, q_exclude = False\<rparr>]
        else [])
     @ [\<lparr>q_difficulty = None, q_phase = None, q_theme = None, q_exclude = False\<rparr>]"

fun first_hit :: "(query \<Rightarrow> error + Puzzle option) \<Rightarrow> query list \<Rightarrow> error + Puzzle" where
  "first_hit run [] = Inl (PuzzleNotFoundError msg_no_puzzles)"
| "first_hit run (q # qs) =
     (case run q of
        Inl e \<Rightarrow> Inl e
      | Inr (Some p) \<Rightarrow> Inr p
      | Inr None \<Rightarrow> first_hit run qs)"

definition select_cascade ::
  "(puzzle_row list \<Rightarrow> nat) \<Rightarrow> puzzle_row list \<Rightarrow> int \<Rightarrow> string option \<Rightarrow> string set
     \<Rightarrow> string option \<Rightarrow> error + Puzzle" where
  "select_cascade pick db d ph solved th =
     first_hit (run_query pick db solved) (cascade_tiers d ph th)"

section \<open>A small rules engine for concrete evaluation\<close>

text \<open>
  An instance of the engine interface that knows the first moves from the initial position,
  enough to run the validator on concrete puzzles. A board is the list of coordinate texts
  pushed since the initial position. \<open>book_from_uci\<close> reads coordinate text as
  \<open>Move.from_uci\<close> does (squares numbered a1 = 0, b1 = 1, ..., h8 = 63; \<open>0000\<close> is the
  null move; equal squares are refused); \<open>book_parse_san\<close> reads the short algebraic
  texts of the book and \<open>--\<close>, the null move, and refuses everything else. The legal
  moves of a board are those of its book entry, and \<open>san\<close> renders exactly those and the
  null move.
\<close>

fun index_of :: "'a list \<Rightarrow> 'a \<Rightarrow> nat option" where
  "index_of [] x = None"
| "index_of (y # ys) x = (if x = y then Some 0 else map_option Suc (index_of ys x))"

definition book_square :: "char \<Rightarrow> char \<Rightarrow> nat option" where
  "book_square f r =
     (case (index_of ''abcdefgh'' f, index_of ''12345678'' r) of
        (Some i, Some j) \<Rightarrow> Some (8 * j + i)
      | _ \<Rightarrow> None)"

definition null_move :: move where
  "null_move = \<lparr>from_square = 0, to_square = 0, promotion = None\<rparr>"

definition book_from_uci :: "string \<Rightarrow> move option" where
  "book_from_uci s =
     (if s = ''0000'' then Some null_move
      else case s of
        [a, b, c, d] \<Rightarrow>
          (case (book_square a b, book_square c d) of
             (Some f, Some t) \<Rightarrow>
               if f = t then None
               else Some \<lparr>from_square = f, to_square = t, promotion = None\<rparr>
           | _ \<Rightarrow> None)
      | [a, b, c, d, e] \<Rightarrow>
          (case (book_square a b, book_square c d, index_of ''pnbrqk'' e) of
             (Some f, Some t, Some k) \<Rightarrow>
               if f = t then None
               else Some \<lparr>from_square = f, to_square = t, promotion = Some (Suc k)\<rparr>
           | _ \<Rightarrow> None)
      | _ \<Rightarrow> None)"

definition book_uci :: "move \<Rightarrow> string" where
  "book_uci m =
     (if m = null_move then ''0000''
      else [''abcdefgh'' ! (from_square m mod 8), ''12345678'' ! (from_square m div 8),
            ''abcdefgh'' ! (to_square m mod 8), ''12345678'' ! (to_square m div 8)]
           @ (case promotion m of None \<Rightarrow> [] | Some k \<Rightarrow> [''pnbrqk'' ! (k - 1)]))"

definition start_fen :: string where
  "start_fen = ''rnbqkbnr/pppppppp/8/8/8/8/PPPPPPPP/RNBQKBNR''"

definition book :: "(string list \<times> (string \<times> string) list) list" where
  "book =
     [([], [(''e4'', ''e2e4''), (''d4'', ''d2d4''), (''Nf3'', ''g1f3'')]),
      ([''e2e4''], [(''e5'', ''e7e5''), (''d5'', ''d7d5''), (''Nf6'', ''g8f6'')]),
      ([''e2e4'', ''e7e5''], [(''Nf3'', ''g1f3''), (''Bc4'', ''f1c4'')]),
      ([''e2e4'', ''e7e5'', ''g1f3''], [(''Nc6'', ''b8c6''), (''d6'', ''d7d6'')]),
      ([''e2e4'', ''e7e5'', ''g1f3'', ''b8c6''], [(''Bb5'', ''f1b5''), (''Bc4'', ''f1c4'')])]"

definition book_moves :: "string list \<Rightarrow> (string \<times> string) list" where
  "book_moves b = (case map_of book b of None \<Rightarrow> [] | Some tbl \<Rightarrow> tbl)"

definition book_engine :: "string list engine" where
  "book_engine =
     \<lparr>board_from_fen = (\<lambda>s. if s = start_fen then Some [] else None),
      from_uci = book_from_uci,
      parse_san = (\<lambda>b s. if s = ''--'' then Some null_move
                          else (case map_of (book_moves b) s of
                                  None \<Rightarrow> None
                                | Some u \<Rightarrow> book_from_uci u)),
      legal = (\<lambda>b m. book_uci m \<in> set (map snd (book_moves b))),
      push = (\<lambda>b m. b @ [book_uci m]),
      san = (\<lambda>b m. if m = null_move then Some ''--''
                    else map_option fst (find (\<lambda>(t, u). u = book_uci m) (book_moves b)))\<rparr>"

definition example_puzzle :: "string list \<Rightarrow> Puzzle" where
  "example_puzzle ms =
     \<lparr>puzzle_id = ''ex001'', fen = start_fen, moves = ms, rating = 1500,
      rating_deviation = 75, popularity = 90, nb_plays = 100, themes = [],
      game_url = [], opening_tags = [], piece_count = 32\<rparr>"

definition example_validator :: "string list \<Rightarrow> string list \<Rightarrow> int \<Rightarrow> string list MoveValidator" where
  "example_validator ms b c =
     \<lparr>puzzle = example_puzzle ms, board = b, solution_moves = drop 1 ms,
      current_move_index = c\<rparr>"

text \<open>A store row for concrete evaluation: id, rating, piece count and themes vary.\<close>

definition example_row :: "string \<Rightarrow> int \<Rightarrow> int \<Rightarrow> string list \<Rightarrow> puzzle_row" where
  "example_row pid r pc ths =
     \<lparr>row_puzzle_id = pid, row_fen = start_fen, row_moves = ''e2e4 e7e5'', row_rating = r,
      row_rating_deviation = 75, row_popularity = 90, row_nb_plays = 100, row_game_url = [],
      row_opening_tags = [], row_piece_count = pc, row_themes = ths\<rparr>"

section \<open>The validator: facts about one call\<close>

lemma parse_move_error:
  "parse_move eng v s = Inl e \<Longrightarrow> e = InvalidMoveError (invalid_format_message (strip s))"
  by (auto simp: parse_move_def Let_def split: option.splits if_splits)

lemma validate_move_unparsed:
  "parse_move eng v s = Inl e \<Longrightarrow>
     validate_move eng v s = (v, Inr (False, invalid_format_message (strip s)))"
  by (frule parse_move_error) (simp add: validate_move_def)

lemma validate_move_illegal:
  "parse_move eng v s = Inr m \<Longrightarrow> \<not> legal eng (board v) m \<Longrightarrow>
     validate_move eng v s = (v, Inr (False, msg_illegal))"
  by (simp add: validate_move_def)

lemma validate_move_complete:
  "parse_move eng v s = Inr m \<Longrightarrow> legal eng (board v) m \<Longrightarrow> is_complete v \<Longrightarrow>
     validate_move eng v s = (v, Inr (False, msg_already_complete))"
  by (simp add: validate_move_def is_complete_def)

lemma validate_move_incorrect:
  "parse_move eng v s = Inr m \<Longrightarrow> legal eng (board v) m \<Longrightarrow> \<not> is_complete v \<Longrightarrow>
   expected_move eng v = Some e \<Longrightarrow> e \<noteq> m \<Longrightarrow> san eng (board v) e = Some t \<Longrightarrow>
     validate_move eng v s = (v, Inr (False, msg_incorrect))"
  by (auto simp: validate_move_def is_complete_def expected_move_def Let_def split: sum.splits)

lemma validate_move_correct:
  "parse_move eng v s = Inr m \<Longrightarrow> legal eng (board v) m \<Longrightarrow> \<not> is_complete v \<Longrightarrow>
   expected_move eng v = Some m \<Longrightarrow>
     validate_move eng v s =
       (let v1 = v\<lparr>board := push eng (board v) m,
                    current_move_index := current_move_index v + 1\<rparr>
        in if is_complete v1 then (v1, Inr (True, msg_solved)) else apply_opponent eng v1)"
  by (auto simp: validate_move_def is_complete_def expected_move_def Let_def split: sum.splits)

lemma apply_opponent_reply:
  "\<not> is_complete v1 \<Longrightarrow> expected_move eng v1 = Some m2 \<Longrightarrow>
     apply_opponent eng v1 =
       (let v2 = v1\<lparr>board := push eng (board v1) m2,
                     current_move_index := current_move_index v1 + 1\<rparr>
        in (v2, Inr (True, if is_complete v2 then msg_solved else msg_continue)))"
  by (auto simp: apply_opponent_def is_complete_def expected_move_def Let_def split: sum.splits)

lemma expected_move_not_complete: "expected_move eng v = Some e \<Longrightarrow> \<not> is_complete v"
  by (auto simp: expected_move_def is_complete_def py_get_def split: if_splits)

lemma expected_move_at:
  "0 \<le> current_move_index v \<Longrightarrow> current_move_index v < int (length (solution_moves v)) \<Longrightarrow>
     expected_move eng v = from_uci eng (solution_moves v ! nat (current_move_index v))"
  by (simp add: expected_move_def py_get_def)

lemma init_state:
  "MoveValidator_init eng p = Inr v0 \<Longrightarrow>
     puzzle v0 = p \<and> solution_moves v0 = drop 1 (moves p) \<and> current_move_index v0 = 0"
  by (auto simp: MoveValidator_init_def Puzzle_solution_moves_def split: sum.splits)

lemma validate_move_solution_moves:
  "solution_moves (fst (validate_move eng v s)) = solution_moves v"
  by (auto simp: validate_move_def apply_opponent_def is_complete_def Let_def
           split: sum.splits option.splits error.splits)

lemma validate_move_valid_cursor:
  "valid_cursor v \<Longrightarrow> valid_cursor (fst (validate_move eng v s))"
  by (auto simp: validate_move_def apply_opponent_def valid_cursor_def is_complete_def Let_def
           split: sum.splits option.splits error.splits)

lemma reset_valid_cursor: "valid_cursor v \<Longrightarrow> valid_cursor (fst (reset eng v))"
  by (auto simp: reset_def valid_cursor_def split: sum.splits)

lemma init_valid_cursor: "MoveValidator_init eng p = Inr v0 \<Longrightarrow> valid_cursor v0"
  by (auto simp: MoveValidator_init_def valid_cursor_def split: sum.splits)

lemma complete_rejects:
  assumes "is_complete v"
  shows "\<exists>msg. validate_move eng v s = (v, Inr (False, msg))"
proof (cases "parse_move eng v s")
  case (Inl e)
  then show ?thesis using validate_move_unparsed by blast
next
  case (Inr m)
  then show ?thesis
    using validate_move_illegal[of eng v s m] validate_move_complete[of eng v s m] assms
    by (cases "legal eng (board v) m") blast+
qed

lemma parse_move_san: "parse_san eng (board v) (strip s) = Some m \<Longrightarrow> parse_move eng v s = Inr m"
  by (simp add: parse_move_def)

lemma parse_move_uci:
  "parse_san eng (board v) (strip s) = None \<Longrightarrow> from_uci eng (strip s) = Some m \<Longrightarrow>
   legal eng (board v) m \<Longrightarrow> parse_move eng v s = Inr m"
  by (simp add: parse_move_def)

lemma validate_move_cong:
  "parse_move eng v s = Inr m \<Longrightarrow> parse_move eng v s' = Inr m \<Longrightarrow>
     validate_move eng v s = validate_move eng v s'"
  by (simp add: validate_move_def)

section \<open>The validator: the claims\<close>

text \<open>
  Claim C8. Constructing a validator from a puzzle whose FEN the engine accepts and whose
  \<open>moves[0]\<close> is coordinate text pushes \<open>moves[0]\<close> on the board of the FEN, takes
  \<open>moves[1:]\<close> as the solution moves and starts the cursor at 0, so that
  \<open>get_current_solution_move\<close> is \<open>moves[1]\<close> right after construction.
\<close>

theorem construction:
  assumes "board_from_fen eng (fen p) = Some b0" and "from_uci eng (moves p ! 0) = Some m0"
    and "2 \<le> length (moves p)"
  shows "MoveValidator_init eng p =
           Inr \<lparr>puzzle = p, board = push eng b0 m0, solution_moves = drop 1 (moves p),
                current_move_index = 0\<rparr>
       \<and> get_current_solution_move
           \<lparr>puzzle = p, board = push eng b0 m0, solution_moves = drop 1 (moves p),
            current_move_index = 0\<rparr>
         = Inr (Some (moves p ! 1))"
proof -
  have ne: "moves p \<noteq> []" using assms(3) by auto
  have g0: "py_get (moves p) 0 = Inr (moves p ! 0)" using ne by (simp add: py_get_def)
  have g1: "py_get (drop 1 (moves p)) 0 = Inr (moves p ! 1)"
    using assms(3) by (simp add: py_get_def)
  show ?thesis using assms(1,2,3) g0 g1
    by (simp add: MoveValidator_init_def setup_board_def Puzzle_solution_moves_def
          get_current_solution_move_def)
qed

theorem construction_witness:
  "board_from_fen book_engine (fen (example_puzzle [''e2e4'', ''e7e5'', ''g1f3'', ''b8c6''])) = Some []
 \<and> from_uci book_engine (moves (example_puzzle [''e2e4'', ''e7e5'', ''g1f3'', ''b8c6'']) ! 0)
     = Some \<lparr>from_square = 12, to_square = 28, promotion = None\<rparr>
 \<and> 2 \<le> length (moves (example_puzzle [''e2e4'', ''e7e5'', ''g1f3'', ''b8c6'']))
 \<and> MoveValidator_init book_engine (example_puzzle [''e2e4'', ''e7e5'', ''g1f3'', ''b8c6''])
     = Inr (example_validator [''e2e4'', ''e7e5'', ''g1f3'', ''b8c6''] [''e2e4''] 0)
 \<and> get_current_solution_move (example_validator [''e2e4'', ''e7e5'', ''g1f3'', ''b8c6''] [''e2e4''] 0)
     = Inr (Some ''e7e5'')"
proof -
  let ?p = "example_puzzle [''e2e4'', ''e7e5'', ''g1f3'', ''b8c6'']"
  let ?e4 = "\<lparr>from_square = 12, to_square = 28, promotion = None\<rparr>"
  have h1: "board_from_fen book_engine (fen ?p) = Some []" by code_simp
  have h2: "from_uci book_engine (moves ?p ! 0) = Some ?e4" by code_simp
  have h3: "2 \<le> length (moves ?p)" by code_simp
  have veq: "\<lparr>puzzle = ?p, board = push book_engine [] ?e4, solution_moves = drop 1 (moves ?p),
              current_move_index = 0\<rparr>
             = example_validator [''e2e4'', ''e7e5'', ''g1f3'', ''b8c6''] [''e2e4''] 0"
    by code_simp
  have er: "moves ?p ! 1 = ''e7e5''" by code_simp
  show ?thesis using construction[OF h1 h2 h3] h1 h2 h3 unfolding veq er by blast
qed



text \<open>
  Claim C2, as amended. An input that fails to parse as SAN or coordinate notation, or parses
  to a move that is illegal in the current position, is answered with \<open>(False, message)\<close>:
  no exception reaches the caller and the validator (cursor, board, completion) is unchanged.
  The same holds for an input that parses to a legal move different from the move that
  \<open>solution_moves[cursor]\<close> denotes, provided that stored text is well-formed coordinate
  text and the engine can render its SAN on the current board.
\<close>

theorem validate_move_rejection:
  assumes "parse_move eng v s = Inl err
         \<or> (parse_move eng v s = Inr m \<and> \<not> legal eng (board v) m)
         \<or> (parse_move eng v s = Inr m \<and> legal eng (board v) m
              \<and> expected_move eng v = Some e \<and> e \<noteq> m \<and> san eng (board v) e = Some t)"
  shows "\<exists>msg. validate_move eng v s = (v, Inr (False, msg))"
  using assms validate_move_unparsed[of eng v s] validate_move_illegal[of eng v s m]
    validate_move_incorrect[of eng v s m e t] expected_move_not_complete[of eng v e]
  by blast

theorem validate_move_rejection_witness:
  "(parse_move book_engine (example_validator [''e2e4'', ''e7e5''] [''e2e4''] 0) ''Qh9''
      = Inl (InvalidMoveError (invalid_format_message ''Qh9''))
    \<and> (\<exists>msg. validate_move book_engine (example_validator [''e2e4'', ''e7e5''] [''e2e4''] 0) ''Qh9''
          = (example_validator [''e2e4'', ''e7e5''] [''e2e4''] 0, Inr (False, msg))))
 \<and> (parse_move book_engine (example_validator [''e2e4'', ''e7e5''] [''e2e4''] 0) ''--''
      = Inr null_move
    \<and> \<not> legal book_engine (board (example_validator [''e2e4'', ''e7e5''] [''e2e4''] 0)) null_move
    \<and> (\<exists>msg. validate_move book_engine (example_validator [''e2e4'', ''e7e5''] [''e2e4''] 0) ''--''
          = (example_validator [''e2e4'', ''e7e5''] [''e2e4''] 0, Inr (False, msg))))
 \<and> (parse_move book_engine (example_validator [''e2e4'', ''e7e5''] [''e2e4''] 0) ''d5''
      = Inr \<lparr>from_square = 51, to_square = 35, promotion = None\<rparr>
    \<and> legal book_engine (board (example_validator [''e2e4'', ''e7e5''] [''e2e4''] 0))
         \<lparr>from_square = 51, to_square = 35, promotion = None\<rparr>
    \<and> expected_move book_engine (example_validator [''e2e4'', ''e7e5''] [''e2e4''] 0)
         = Some \<lparr>from_square = 52, to_square = 36, promotion = None\<rparr>
    \<and> \<lparr>from_square = 52, to_square = 36, promotion = None\<rparr>
         \<noteq> \<lparr>from_square = 51, to_square = 35, promotion = None\<rparr>
    \<and> san book_engine (board (example_validator [''e2e4'', ''e7e5''] [''e2e4''] 0))
         \<lparr>from_square = 52, to_square = 36, promotion = None\<rparr> = Some ''e5''
    \<and> (\<exists>msg. validate_move book_engine (example_validator [''e2e4'', ''e7e5''] [''e2e4''] 0) ''d5''
          = (example_validator [''e2e4'', ''e7e5''] [''e2e4''] 0, Inr (False, msg))))"
proof -
  let ?v = "example_validator [''e2e4'', ''e7e5''] [''e2e4''] 0"
  have a: "parse_move book_engine ?v ''Qh9'' = Inl (InvalidMoveError (invalid_format_message ''Qh9''))"
    by code_simp
  have b1: "parse_move book_engine ?v ''--'' = Inr null_move" by code_simp
  have b2: "\<not> legal book_engine (board ?v) null_move" by code_simp
  have c1: "parse_move book_engine ?v ''d5'' = Inr \<lparr>from_square = 51, to_square = 35, promotion = None\<rparr>"
    by code_simp
  have c2: "legal book_engine (board ?v) \<lparr>from_square = 51, to_square = 35, promotion = None\<rparr>"
    by code_simp
  have c4: "expected_move book_engine ?v = Some \<lparr>from_square = 52, to_square = 36, promotion = None\<rparr>"
    by code_simp
  have c5: "\<lparr>from_square = 52, to_square = 36, promotion = None\<rparr>
         \<noteq> \<lparr>from_square = 51, to_square = 35, promotion = None\<rparr>" by simp
  have c6: "san book_engine (board ?v) \<lparr>from_square = 52, to_square = 36, promotion = None\<rparr>
              = Some ''e5''" by code_simp
  note r = validate_move_rejection[of book_engine ?v]
  have ra: "\<exists>msg. validate_move book_engine ?v ''Qh9'' = (?v, Inr (False, msg))"
    using r[of "''Qh9''"] a by blast
  have rb: "\<exists>msg. validate_move book_engine ?v ''--'' = (?v, Inr (False, msg))"
    using r[of "''--''" _ null_move] b1 b2 by blast
  have rc: "\<exists>msg. validate_move book_engine ?v ''d5'' = (?v, Inr (False, msg))"
    using r[of "''d5''" _ "\<lparr>from_square = 51, to_square = 35, promotion = None\<rparr>"
               "\<lparr>from_square = 52, to_square = 36, promotion = None\<rparr>" "''e5''"]
      c1 c2 c4 c5 c6 by blast
  show ?thesis using a b1 b2 c1 c2 c4 c5 c6 ra rb rc by blast
qed

text \<open>
  The claim as stated fails where the stored solution move cannot be rendered or read. The
  puzzle e2e4 e3e4 constructs; after e2e4 no piece stands on e3, so for the legal reply d5,
  which differs from the stored e3e4, \<open>board.san\<close> raises and \<open>AssertionError\<close> reaches the
  caller. With the stored text zzzz the same input makes \<open>Move.from_uci\<close> raise
  \<open>ValueError\<close>.
\<close>

theorem validate_move_rejection_counterexample:
  "MoveValidator_init book_engine (example_puzzle [''e2e4'', ''e3e4''])
     = Inr (example_validator [''e2e4'', ''e3e4''] [''e2e4''] 0)
 \<and> parse_move book_engine (example_validator [''e2e4'', ''e3e4''] [''e2e4''] 0) ''d5''
     = Inr \<lparr>from_square = 51, to_square = 35, promotion = None\<rparr>
 \<and> legal book_engine (board (example_validator [''e2e4'', ''e3e4''] [''e2e4''] 0))
      \<lparr>from_square = 51, to_square = 35, promotion = None\<rparr>
 \<and> expected_move book_engine (example_validator [''e2e4'', ''e3e4''] [''e2e4''] 0)
     = Some \<lparr>from_square = 20, to_square = 28, promotion = None\<rparr>
 \<and> \<lparr>from_square = 20, to_square = 28, promotion = None\<rparr>
      \<noteq> \<lparr>from_square = 51, to_square = 35, promotion = None\<rparr>
 \<and> validate_move book_engine (example_validator [''e2e4'', ''e3e4''] [''e2e4''] 0) ''d5''
     = (example_validator [''e2e4'', ''e3e4''] [''e2e4''] 0, Inl AssertionError)
 \<and> MoveValidator_init book_engine (example_puzzle [''e2e4'', ''zzzz''])
     = Inr (example_validator [''e2e4'', ''zzzz''] [''e2e4''] 0)
 \<and> parse_move book_engine (example_validator [''e2e4'', ''zzzz''] [''e2e4''] 0) ''d5''
     = Inr \<lparr>from_square = 51, to_square = 35, promotion = None\<rparr>
 \<and> legal book_engine (board (example_validator [''e2e4'', ''zzzz''] [''e2e4''] 0))
      \<lparr>from_square = 51, to_square = 35, promotion = None\<rparr>
 \<and> validate_move book_engine (example_validator [''e2e4'', ''zzzz''] [''e2e4''] 0) ''d5''
     = (example_validator [''e2e4'', ''zzzz''] [''e2e4''] 0, Inl ValueError)"
  by code_simp

text \<open>
  Claim C6, as amended. For a puzzle with \<open>moves = [m0, m1, m2, m3]\<close> the correct move for
  \<open>m1\<close> advances the cursor to 2 with \<open>m2\<close> applied automatically, reports
  success-continue and leaves the puzzle incomplete; the correct move for \<open>m3\<close>, submitted
  next, advances the cursor to 3, the number of solution moves, and reports completion. The
  puzzle is complete after two correct submissions, not one.
\<close>

theorem four_move_puzzle:
  assumes mv: "moves p = [u0, u1, u2, u3]" and init: "MoveValidator_init eng p = Inr v0"
    and p1: "parse_move eng v0 s = Inr m1" and l1: "legal eng (board v0) m1"
    and e1: "from_uci eng u1 = Some m1" and e2: "from_uci eng u2 = Some m2"
  shows "let v2 = v0\<lparr>board := push eng (push eng (board v0) m1) m2, current_move_index := 2\<rparr>
         in validate_move eng v0 s = (v2, Inr (True, msg_continue))
          \<and> \<not> is_complete v2
          \<and> (\<forall>s' m3. parse_move eng v2 s' = Inr m3 \<and> legal eng (board v2) m3
                       \<and> from_uci eng u3 = Some m3 \<longrightarrow>
                validate_move eng v2 s' =
                  (v2\<lparr>board := push eng (board v2) m3, current_move_index := 3\<rparr>,
                   Inr (True, msg_solved))
              \<and> is_complete (v2\<lparr>board := push eng (board v2) m3, current_move_index := 3\<rparr>))"
proof -
  let ?v1 = "v0\<lparr>board := push eng (board v0) m1, current_move_index := current_move_index v0 + 1\<rparr>"
  let ?v2 = "v0\<lparr>board := push eng (push eng (board v0) m1) m2, current_move_index := 2\<rparr>"
  have st: "solution_moves v0 = [u1, u2, u3]" "current_move_index v0 = 0"
    using init_state[OF init] mv by simp_all
  have nc0: "\<not> is_complete v0" using st by (simp add: is_complete_def)
  have x0: "expected_move eng v0 = Some m1" using st e1 by (simp add: expected_move_at)
  have nc1: "\<not> is_complete ?v1" using st by (simp add: is_complete_def)
  have x1: "expected_move eng ?v1 = Some m2" using st e2 by (simp add: expected_move_at)
  have a: "validate_move eng v0 s = apply_opponent eng ?v1"
    using validate_move_correct[OF p1 l1 nc0 x0] nc1 by (simp add: Let_def)
  have nc2: "\<not> is_complete ?v2" using st by (simp add: is_complete_def)
  have b: "apply_opponent eng ?v1 = (?v2, Inr (True, msg_continue))"
    using apply_opponent_reply[OF nc1 x1] nc2 st by (simp add: Let_def)
  have c: "\<forall>s' m3. parse_move eng ?v2 s' = Inr m3 \<and> legal eng (board ?v2) m3
                       \<and> from_uci eng u3 = Some m3 \<longrightarrow>
                validate_move eng ?v2 s' =
                  (?v2\<lparr>board := push eng (board ?v2) m3, current_move_index := 3\<rparr>,
                   Inr (True, msg_solved))
              \<and> is_complete (?v2\<lparr>board := push eng (board ?v2) m3, current_move_index := 3\<rparr>)"
  proof (intro allI impI)
    fix s' m3
    assume h: "parse_move eng ?v2 s' = Inr m3 \<and> legal eng (board ?v2) m3 \<and> from_uci eng u3 = Some m3"
    let ?v3 = "?v2\<lparr>board := push eng (board ?v2) m3, current_move_index := 3\<rparr>"
    have x2: "expected_move eng ?v2 = Some m3" using st h by (simp add: expected_move_at)
    have c3: "is_complete ?v3" using st by (simp add: is_complete_def)
    have "validate_move eng ?v2 s' = (?v3, Inr (True, msg_solved))"
      using validate_move_correct[OF _ _ nc2 x2, of s'] h c3 by (simp add: Let_def)
    then show "validate_move eng ?v2 s' = (?v3, Inr (True, msg_solved)) \<and> is_complete ?v3"
      using c3 by blast
  qed
  have ab: "validate_move eng v0 s = (?v2, Inr (True, msg_continue))" using a b by simp
  show ?thesis unfolding Let_def using ab nc2 c by blast
qed

theorem four_move_puzzle_witness:
  "moves (example_puzzle [''e2e4'', ''e7e5'', ''g1f3'', ''b8c6''])
     = [''e2e4'', ''e7e5'', ''g1f3'', ''b8c6'']
 \<and> MoveValidator_init book_engine (example_puzzle [''e2e4'', ''e7e5'', ''g1f3'', ''b8c6''])
     = Inr (example_validator [''e2e4'', ''e7e5'', ''g1f3'', ''b8c6''] [''e2e4''] 0)
 \<and> validate_move book_engine
       (example_validator [''e2e4'', ''e7e5'', ''g1f3'', ''b8c6''] [''e2e4''] 0) ''e5''
     = (example_validator [''e2e4'', ''e7e5'', ''g1f3'', ''b8c6''] [''e2e4'', ''e7e5'', ''g1f3''] 2,
        Inr (True, msg_continue))
 \<and> validate_move book_engine
       (example_validator [''e2e4'', ''e7e5'', ''g1f3'', ''b8c6''] [''e2e4'', ''e7e5'', ''g1f3''] 2)
       ''Nc6''
     = (example_validator [''e2e4'', ''e7e5'', ''g1f3'', ''b8c6'']
          [''e2e4'', ''e7e5'', ''g1f3'', ''b8c6''] 3, Inr (True, msg_solved))
 \<and> is_complete (example_validator [''e2e4'', ''e7e5'', ''g1f3'', ''b8c6'']
                   [''e2e4'', ''e7e5'', ''g1f3'', ''b8c6''] 3)"
proof -
  let ?ms = "[''e2e4'', ''e7e5'', ''g1f3'', ''b8c6'']"
  let ?p = "example_puzzle ?ms"
  let ?v0 = "example_validator ?ms [''e2e4''] 0"
  let ?v2 = "example_validator ?ms [''e2e4'', ''e7e5'', ''g1f3''] 2"
  let ?v3 = "example_validator ?ms [''e2e4'', ''e7e5'', ''g1f3'', ''b8c6''] 3"
  let ?e5 = "\<lparr>from_square = 52, to_square = 36, promotion = None\<rparr>"
  let ?nf3 = "\<lparr>from_square = 6, to_square = 21, promotion = None\<rparr>"
  let ?nc6 = "\<lparr>from_square = 57, to_square = 42, promotion = None\<rparr>"
  have h1: "moves ?p = ?ms" by code_simp
  have h2: "MoveValidator_init book_engine ?p = Inr ?v0" by code_simp
  have h3: "parse_move book_engine ?v0 ''e5'' = Inr ?e5" by code_simp
  have h4: "legal book_engine (board ?v0) ?e5" by code_simp
  have h5: "from_uci book_engine ''e7e5'' = Some ?e5" by code_simp
  have h6: "from_uci book_engine ''g1f3'' = Some ?nf3" by code_simp
  have e2: "?v0\<lparr>board := push book_engine (push book_engine (board ?v0) ?e5) ?nf3,
                 current_move_index := 2\<rparr> = ?v2" by code_simp
  have e3: "?v2\<lparr>board := push book_engine (board ?v2) ?nc6, current_move_index := 3\<rparr> = ?v3"
    by code_simp
  have k1: "parse_move book_engine ?v2 ''Nc6'' = Inr ?nc6" by code_simp
  have k2: "legal book_engine (board ?v2) ?nc6" by code_simp
  have k3: "from_uci book_engine ''b8c6'' = Some ?nc6" by code_simp
  note t = four_move_puzzle[OF h1 h2 h3 h4 h5 h6, unfolded Let_def e2]
  have a: "validate_move book_engine ?v0 ''e5'' = (?v2, Inr (True, msg_continue))"
    using t by blast
  have b0: "validate_move book_engine ?v2 ''Nc6''
              = (?v2\<lparr>board := push book_engine (board ?v2) ?nc6, current_move_index := 3\<rparr>,
                 Inr (True, msg_solved))
          \<and> is_complete (?v2\<lparr>board := push book_engine (board ?v2) ?nc6,
                                current_move_index := 3\<rparr>)"
    using t k1 k2 k3 by blast
  have b: "validate_move book_engine ?v2 ''Nc6'' = (?v3, Inr (True, msg_solved)) \<and> is_complete ?v3"
    using b0 unfolding e3 .
  show ?thesis using h1 h2 a b by blast
qed

text \<open>
  The claim as stated fails on the four-move puzzle e2e4 e7e5 g1f3 b8c6: after the correct
  reply e5 the cursor is 2 of 3, the result is success-continue and the puzzle is not complete.
\<close>

theorem four_move_puzzle_counterexample:
  "MoveValidator_init book_engine (example_puzzle [''e2e4'', ''e7e5'', ''g1f3'', ''b8c6''])
     = Inr (example_validator [''e2e4'', ''e7e5'', ''g1f3'', ''b8c6''] [''e2e4''] 0)
 \<and> validate_move book_engine
       (example_validator [''e2e4'', ''e7e5'', ''g1f3'', ''b8c6''] [''e2e4''] 0) ''e5''
     = (example_validator [''e2e4'', ''e7e5'', ''g1f3'', ''b8c6''] [''e2e4'', ''e7e5'', ''g1f3''] 2,
        Inr (True, msg_continue))
 \<and> \<not> is_complete
       (example_validator [''e2e4'', ''e7e5'', ''g1f3'', ''b8c6''] [''e2e4'', ''e7e5'', ''g1f3''] 2)"
  by code_simp

text \<open>
  Claim C7. When an input read as SAN and an input read as coordinate text denote the same
  legal move of the current position, \<open>validate_move\<close> gives the same result and leaves
  the same validator for both (so the same accepted flag and the same cursor). The engine may
  read the coordinate text as SAN too, provided it reads it as that move. In particular, for
  the puzzle with FEN \<open>rnbqkbnr/pppppppp/8/8/8/8/PPPPPPPP/RNBQKBNR\<close> and moves
  \<open>e2e4 e7e5\<close>, on an engine that reads \<open>e5\<close> after \<open>e2e4\<close> as the legal move
  \<open>e7e5\<close>, both \<open>e5\<close> and \<open>e7e5\<close> are accepted and complete the puzzle.
\<close>

theorem san_uci_equivalence:
  "(parse_san eng (board v) (strip s_san) = Some m \<and> from_uci eng (strip s_uci) = Some m
      \<and> legal eng (board v) m
      \<and> (parse_san eng (board v) (strip s_uci) = None
           \<or> parse_san eng (board v) (strip s_uci) = Some m)
    \<longrightarrow> validate_move eng v s_san = validate_move eng v s_uci)
 \<and> (fen p = start_fen \<and> moves p = [''e2e4'', ''e7e5'']
      \<and> board_from_fen eng start_fen = Some b0
      \<and> from_uci eng ''e2e4'' = Some m0 \<and> from_uci eng ''e7e5'' = Some m1
      \<and> parse_san eng (push eng b0 m0) ''e5'' = Some m1
      \<and> (parse_san eng (push eng b0 m0) ''e7e5'' = None
           \<or> parse_san eng (push eng b0 m0) ''e7e5'' = Some m1)
      \<and> legal eng (push eng b0 m0) m1
    \<longrightarrow> (\<exists>v0. MoveValidator_init eng p = Inr v0
           \<and> (\<forall>s \<in> {''e5'', ''e7e5''}.
                 snd (validate_move eng v0 s) = Inr (True, msg_solved)
               \<and> is_complete (fst (validate_move eng v0 s)))))"
proof (intro conjI impI)
  assume h: "parse_san eng (board v) (strip s_san) = Some m \<and> from_uci eng (strip s_uci) = Some m
      \<and> legal eng (board v) m
      \<and> (parse_san eng (board v) (strip s_uci) = None
           \<or> parse_san eng (board v) (strip s_uci) = Some m)"
  then have a: "parse_move eng v s_san = Inr m" by (simp add: parse_move_san)
  have b: "parse_move eng v s_uci = Inr m"
    using h parse_move_san[of eng v s_uci m] parse_move_uci[of eng v s_uci m] by blast
  show "validate_move eng v s_san = validate_move eng v s_uci"
    using validate_move_cong[OF a b] .
next
  assume h: "fen p = start_fen \<and> moves p = [''e2e4'', ''e7e5'']
      \<and> board_from_fen eng start_fen = Some b0
      \<and> from_uci eng ''e2e4'' = Some m0 \<and> from_uci eng ''e7e5'' = Some m1
      \<and> parse_san eng (push eng b0 m0) ''e5'' = Some m1
      \<and> (parse_san eng (push eng b0 m0) ''e7e5'' = None
           \<or> parse_san eng (push eng b0 m0) ''e7e5'' = Some m1)
      \<and> legal eng (push eng b0 m0) m1"
  let ?v0 = "\<lparr>puzzle = p, board = push eng b0 m0, solution_moves = [''e7e5''],
              current_move_index = 0\<rparr>"
  let ?v1 = "?v0\<lparr>board := push eng (board ?v0) m1, current_move_index := current_move_index ?v0 + 1\<rparr>"
  have i: "MoveValidator_init eng p = Inr ?v0"
    using h by (simp add: MoveValidator_init_def setup_board_def py_get_def Puzzle_solution_moves_def)
  have s1: "strip ''e5'' = ''e5''" "strip ''e7e5'' = ''e7e5''"
    by (simp_all add: strip_def py_isspace_def)
  have pa: "parse_move eng ?v0 ''e5'' = Inr m1" using h s1 by (simp add: parse_move_def)
  have pb: "parse_move eng ?v0 ''e7e5'' = Inr m1"
    using h s1 by (auto simp: parse_move_def)
  have l: "legal eng (board ?v0) m1" using h by simp
  have nc: "\<not> is_complete ?v0" by (simp add: is_complete_def)
  have x: "expected_move eng ?v0 = Some m1" using h by (simp add: expected_move_def py_get_def)
  have c1: "is_complete ?v1" by (simp add: is_complete_def)
  have ra: "validate_move eng ?v0 ''e5'' = (?v1, Inr (True, msg_solved))"
    using validate_move_correct[OF pa l nc x] c1 by (simp add: Let_def)
  have rb: "validate_move eng ?v0 ''e7e5'' = (?v1, Inr (True, msg_solved))"
    using validate_move_correct[OF pb l nc x] c1 by (simp add: Let_def)
  show "\<exists>v0. MoveValidator_init eng p = Inr v0
           \<and> (\<forall>s \<in> {''e5'', ''e7e5''}.
                 snd (validate_move eng v0 s) = Inr (True, msg_solved)
               \<and> is_complete (fst (validate_move eng v0 s)))"
    using i ra rb c1 by (intro exI[of _ ?v0]) simp
qed

theorem san_uci_equivalence_witness:
  "parse_san book_engine (board (example_validator [''e2e4'', ''e7e5''] [''e2e4''] 0)) (strip ''e5'')
     = Some \<lparr>from_square = 52, to_square = 36, promotion = None\<rparr>
 \<and> from_uci book_engine (strip ''e7e5'') = Some \<lparr>from_square = 52, to_square = 36, promotion = None\<rparr>
 \<and> legal book_engine (board (example_validator [''e2e4'', ''e7e5''] [''e2e4''] 0))
      \<lparr>from_square = 52, to_square = 36, promotion = None\<rparr>
 \<and> parse_san book_engine (board (example_validator [''e2e4'', ''e7e5''] [''e2e4''] 0))
      (strip ''e7e5'') = None
 \<and> validate_move book_engine (example_validator [''e2e4'', ''e7e5''] [''e2e4''] 0) ''e5''
     = validate_move book_engine (example_validator [''e2e4'', ''e7e5''] [''e2e4''] 0) ''e7e5''
 \<and> fen (example_puzzle [''e2e4'', ''e7e5'']) = start_fen
 \<and> moves (example_puzzle [''e2e4'', ''e7e5'']) = [''e2e4'', ''e7e5'']
 \<and> board_from_fen book_engine start_fen = Some []
 \<and> from_uci book_engine ''e2e4'' = Some \<lparr>from_square = 12, to_square = 28, promotion = None\<rparr>
 \<and> (\<exists>v0. MoveValidator_init book_engine (example_puzzle [''e2e4'', ''e7e5'']) = Inr v0
         \<and> snd (validate_move book_engine v0 ''e5'') = Inr (True, msg_solved)
         \<and> is_complete (fst (validate_move book_engine v0 ''e5''))
         \<and> snd (validate_move book_engine v0 ''e7e5'') = Inr (True, msg_solved)
         \<and> is_complete (fst (validate_move book_engine v0 ''e7e5'')))"
proof -
  let ?p = "example_puzzle [''e2e4'', ''e7e5'']"
  let ?v = "example_validator [''e2e4'', ''e7e5''] [''e2e4''] 0"
  let ?e4 = "\<lparr>from_square = 12, to_square = 28, promotion = None\<rparr>"
  let ?e5 = "\<lparr>from_square = 52, to_square = 36, promotion = None\<rparr>"
  have g1: "parse_san book_engine (board ?v) (strip ''e5'') = Some ?e5" by code_simp
  have g2: "from_uci book_engine (strip ''e7e5'') = Some ?e5" by code_simp
  have g3: "legal book_engine (board ?v) ?e5" by code_simp
  have g4: "parse_san book_engine (board ?v) (strip ''e7e5'') = None" by code_simp
  have s1: "fen ?p = start_fen" by code_simp
  have s2: "moves ?p = [''e2e4'', ''e7e5'']" by code_simp
  have s3: "board_from_fen book_engine start_fen = Some []" by code_simp
  have s4: "from_uci book_engine ''e2e4'' = Some ?e4" by code_simp
  have s5: "from_uci book_engine ''e7e5'' = Some ?e5" by code_simp
  have s6: "parse_san book_engine (push book_engine [] ?e4) ''e5'' = Some ?e5" by code_simp
  have s7: "parse_san book_engine (push book_engine [] ?e4) ''e7e5'' = None" by code_simp
  have s8: "legal book_engine (push book_engine [] ?e4) ?e5" by code_simp
  note t = san_uci_equivalence[of book_engine ?v "''e5''" ?e5 "''e7e5''" ?p "[]" ?e4 ?e5]
  have a: "validate_move book_engine ?v ''e5'' = validate_move book_engine ?v ''e7e5''"
    using t g1 g2 g3 g4 by blast
  have b: "\<exists>v0. MoveValidator_init book_engine ?p = Inr v0
         \<and> snd (validate_move book_engine v0 ''e5'') = Inr (True, msg_solved)
         \<and> is_complete (fst (validate_move book_engine v0 ''e5''))
         \<and> snd (validate_move book_engine v0 ''e7e5'') = Inr (True, msg_solved)
         \<and> is_complete (fst (validate_move book_engine v0 ''e7e5''))"
    using t s1 s2 s3 s4 s5 s6 s7 s8 by blast
  show ?thesis using g1 g2 g3 g4 a s1 s2 s3 s4 b by blast
qed

text \<open>
  Claim C9, as amended. Construction raises when the move list is empty, when the engine
  rejects the FEN, and when \<open>moves[0]\<close> is not coordinate text. It checks neither that there
  are two moves nor that \<open>moves[0]\<close> is legal: its outcome is the same whatever the engine's
  legality test answers, and a puzzle with a single move, when it constructs, gives a validator
  that is complete from the start and rejects every submission.
\<close>

theorem construction_failure:
  "(board_from_fen eng (fen p) = None \<or> moves p = []
      \<or> (\<exists>u us. moves p = u # us \<and> from_uci eng u = None)
    \<longrightarrow> (\<exists>e. MoveValidator_init eng p = Inl e))
 \<and> MoveValidator_init (eng\<lparr>legal := l\<rparr>) p = MoveValidator_init eng p
 \<and> (MoveValidator_init eng p = Inr v \<and> length (moves p) = 1 \<longrightarrow>
       is_complete v \<and> (\<forall>s. \<exists>msg. validate_move eng v s = (v, Inr (False, msg))))"
proof -
  have a: "board_from_fen eng (fen p) = None \<or> moves p = []
      \<or> (\<exists>u us. moves p = u # us \<and> from_uci eng u = None)
    \<longrightarrow> (\<exists>e. MoveValidator_init eng p = Inl e)"
    by (cases "moves p")
       (auto simp: MoveValidator_init_def setup_board_def py_get_def
             split: option.splits sum.splits)
  have sb: "setup_board (eng\<lparr>legal := l\<rparr>) p = setup_board eng p"
    by (simp add: setup_board_def split: option.splits sum.splits)
  have b: "MoveValidator_init (eng\<lparr>legal := l\<rparr>) p = MoveValidator_init eng p"
    by (simp add: MoveValidator_init_def sb)
  have c: "MoveValidator_init eng p = Inr v \<and> length (moves p) = 1 \<longrightarrow> is_complete v"
    using init_state[of eng p v] by (auto simp: is_complete_def)
  show ?thesis using a b c complete_rejects[of v eng] by blast
qed

theorem construction_failure_witness:
  "MoveValidator_init book_engine (example_puzzle [''e2e4''])
     = Inr (example_validator [''e2e4''] [''e2e4''] 0)
 \<and> length (moves (example_puzzle [''e2e4''])) = 1
 \<and> is_complete (example_validator [''e2e4''] [''e2e4''] 0)
 \<and> (\<exists>msg. validate_move book_engine (example_validator [''e2e4''] [''e2e4''] 0) ''e5''
            = (example_validator [''e2e4''] [''e2e4''] 0, Inr (False, msg)))
 \<and> moves (example_puzzle []) = []
 \<and> (\<exists>e. MoveValidator_init book_engine (example_puzzle []) = Inl e)
 \<and> MoveValidator_init (book_engine\<lparr>legal := (\<lambda>b m. False)\<rparr>) (example_puzzle [''e2e4''])
     = Inr (example_validator [''e2e4''] [''e2e4''] 0)"
proof -
  let ?p = "example_puzzle [''e2e4'']"
  let ?v = "example_validator [''e2e4''] [''e2e4''] 0"
  have h1: "MoveValidator_init book_engine ?p = Inr ?v" by code_simp
  have h2: "length (moves ?p) = 1" by code_simp
  have h3: "moves (example_puzzle []) = []" by code_simp
  have a: "is_complete ?v \<and> (\<exists>msg. validate_move book_engine ?v ''e5'' = (?v, Inr (False, msg)))"
    using construction_failure[of book_engine ?p _ ?v] h1 h2 by blast
  have b: "\<exists>e. MoveValidator_init book_engine (example_puzzle []) = Inl e"
    using construction_failure[of book_engine "example_puzzle []" _ ?v] h3 by blast
  have c: "MoveValidator_init (book_engine\<lparr>legal := (\<lambda>b m. False)\<rparr>) ?p = Inr ?v"
    using construction_failure[of book_engine ?p "\<lambda>b m. False" ?v] h1 by simp
  show ?thesis using h1 h2 h3 a b c by blast
qed

text \<open>
  The claim as stated fails twice: the one-move puzzle e2e4 constructs a validator, and so does
  the puzzle whose setup move e2e5 is illegal in the initial position.
\<close>

theorem construction_failure_counterexample:
  "length (moves (example_puzzle [''e2e4''])) < 2
 \<and> MoveValidator_init book_engine (example_puzzle [''e2e4''])
     = Inr (example_validator [''e2e4''] [''e2e4''] 0)
 \<and> board_from_fen book_engine (fen (example_puzzle [''e2e5'', ''e7e6''])) = Some []
 \<and> from_uci book_engine (moves (example_puzzle [''e2e5'', ''e7e6'']) ! 0)
     = Some \<lparr>from_square = 12, to_square = 36, promotion = None\<rparr>
 \<and> \<not> legal book_engine [] \<lparr>from_square = 12, to_square = 36, promotion = None\<rparr>
 \<and> MoveValidator_init book_engine (example_puzzle [''e2e5'', ''e7e6''])
     = Inr (example_validator [''e2e5'', ''e7e6''] [''e2e5''] 0)"
  by code_simp

text \<open>
  Claim C10. \<open>0 \<le> current_move_index \<le> len(solution_moves)\<close> holds after construction and
  is preserved by \<open>validate_move\<close> (whatever its outcome) and by \<open>reset\<close>, neither of
  which changes \<open>solution_moves\<close>; under it \<open>get_moves_remaining\<close> is
  \<open>len(solution_moves) - current_move_index\<close> and not negative; and on a complete
  validator \<open>validate_move\<close> answers \<open>(False, message)\<close> and changes nothing.
\<close>

theorem cursor_invariant:
  "(MoveValidator_init eng p = Inr v0 \<longrightarrow> valid_cursor v0)
 \<and> (valid_cursor v \<longrightarrow>
       valid_cursor (fst (validate_move eng v s))
     \<and> solution_moves (fst (validate_move eng v s)) = solution_moves v
     \<and> valid_cursor (fst (reset eng v))
     \<and> solution_moves (fst (reset eng v)) = solution_moves v
     \<and> get_moves_remaining v = int (length (solution_moves v)) - current_move_index v
     \<and> 0 \<le> get_moves_remaining v)
 \<and> (is_complete v \<longrightarrow> (\<exists>msg. validate_move eng v s = (v, Inr (False, msg))))"
proof -
  have r: "solution_moves (fst (reset eng v)) = solution_moves v"
    by (auto simp: reset_def split: sum.splits)
  have g: "valid_cursor v \<longrightarrow>
       get_moves_remaining v = int (length (solution_moves v)) - current_move_index v
     \<and> 0 \<le> get_moves_remaining v"
    by (auto simp: get_moves_remaining_def valid_cursor_def)
  show ?thesis
    using init_valid_cursor[of eng p v0] validate_move_valid_cursor[of v eng s]
      validate_move_solution_moves[of eng v s] reset_valid_cursor[of v eng] r g
      complete_rejects[of v eng s]
    by blast
qed

theorem cursor_invariant_witness:
  "MoveValidator_init book_engine (example_puzzle [''e2e4'', ''e7e5''])
     = Inr (example_validator [''e2e4'', ''e7e5''] [''e2e4''] 0)
 \<and> valid_cursor (example_validator [''e2e4'', ''e7e5''] [''e2e4''] 0)
 \<and> valid_cursor (fst (validate_move book_engine
                        (example_validator [''e2e4'', ''e7e5''] [''e2e4''] 0) ''e5''))
 \<and> valid_cursor (fst (reset book_engine (example_validator [''e2e4'', ''e7e5''] [''e2e4''] 0)))
 \<and> get_moves_remaining (example_validator [''e2e4'', ''e7e5''] [''e2e4''] 0) = 1
 \<and> is_complete (example_validator [''e2e4'', ''e7e5''] [''e2e4'', ''e7e5''] 1)
 \<and> (\<exists>msg. validate_move book_engine
              (example_validator [''e2e4'', ''e7e5''] [''e2e4'', ''e7e5''] 1) ''Nf3''
            = (example_validator [''e2e4'', ''e7e5''] [''e2e4'', ''e7e5''] 1, Inr (False, msg)))"
proof -
  let ?p = "example_puzzle [''e2e4'', ''e7e5'']"
  let ?v0 = "example_validator [''e2e4'', ''e7e5''] [''e2e4''] 0"
  let ?v1 = "example_validator [''e2e4'', ''e7e5''] [''e2e4'', ''e7e5''] 1"
  have h1: "MoveValidator_init book_engine ?p = Inr ?v0" by code_simp
  have h2: "is_complete ?v1" by code_simp
  have n: "int (length (solution_moves ?v0)) - current_move_index ?v0 = 1" by code_simp
  have a: "valid_cursor ?v0"
    using cursor_invariant[of book_engine ?p ?v0 ?v0 "''e5''"] h1 by blast
  have b: "valid_cursor (fst (validate_move book_engine ?v0 ''e5''))
         \<and> valid_cursor (fst (reset book_engine ?v0))
         \<and> get_moves_remaining ?v0 = 1"
    using cursor_invariant[of book_engine ?p ?v0 ?v0 "''e5''"] a n by simp
  have c: "\<exists>msg. validate_move book_engine ?v1 ''Nf3'' = (?v1, Inr (False, msg))"
    using cursor_invariant[of book_engine ?p ?v0 ?v1 "''Nf3''"] h2 by blast
  show ?thesis using h1 h2 a b c by blast
qed

section \<open>The selector: facts about the queries\<close>

lemma passes_iff: "passes cs j \<longleftrightarrow> (\<forall>c \<in> set cs. c j = Some True)"
proof -
  have "\<And>a. foldl sql_and a xs = Some True \<longleftrightarrow> a = Some True \<and> (\<forall>x \<in> set xs. x = Some True)" for xs
  proof (induction xs)
    case Nil
    show ?case by simp
  next
    case (Cons x xs)
    have "sql_and a x = Some True \<longleftrightarrow> a = Some True \<and> x = Some True" for a
      by (cases "(a, x)" rule: sql_and.cases) auto
    then show ?case using Cons by auto
  qed
  then show ?thesis by (auto simp: passes_def)
qed

lemma query_in_range:
  "1 \<le> d \<Longrightarrow> d \<le> 5 \<Longrightarrow> \<exists>r. query_puzzle pick db (Some d) ph solved ex th = Inr r"
  by (auto simp: query_puzzle_def get_difficulty_range_def Let_def)

lemma query_unconstrained: "\<exists>r. query_puzzle pick db None ph solved ex th = Inr r"
  by (auto simp: query_puzzle_def Let_def)

lemma query_no_exclusion:
  assumes "solved = {}"
  shows "query_puzzle pick db d ph solved True th = query_puzzle pick db d ph solved False th"
proof -
  have eq: "where_clauses rr ph {} True th = where_clauses rr ph {} False th" for rr
    by (simp add: where_clauses_def)
  show ?thesis unfolding query_puzzle_def assms eq ..
qed

lemma query_result_row:
  assumes "query_puzzle pick db d ph solved ex th = Inr (Some p)"
  shows "\<exists>rr row. (case d of None \<Rightarrow> Inr None | Some k \<Rightarrow> map_sum id Some (get_difficulty_range k)) = Inr rr
           \<and> row \<in> set (matching (where_clauses rr ph solved ex th) db) \<and> p = row_to_puzzle row"
proof -
  obtain rr where rr: "(case d of None \<Rightarrow> Inr None | Some k \<Rightarrow> map_sum id Some (get_difficulty_range k)) = Inr rr"
    using assms by (auto simp: query_puzzle_def split: sum.splits)
  let ?ms = "matching (where_clauses rr ph solved ex th) db"
  have ne: "?ms \<noteq> []" and p: "p = row_to_puzzle (?ms ! (pick ?ms mod length ?ms))"
    using assms rr by (auto simp: query_puzzle_def Let_def split: if_splits)
  have "?ms ! (pick ?ms mod length ?ms) \<in> set ?ms" using ne by simp
  then show ?thesis using rr p by blast
qed

lemma query_excludes_solved:
  assumes "query_puzzle pick db d ph solved True th = Inr (Some p)"
  shows "puzzle_id p \<notin> solved"
proof (cases "solved = {}")
  case True
  then show ?thesis by simp
next
  case False
  obtain rr row where row: "row \<in> set (matching (where_clauses rr ph solved True th) db)"
      and p: "p = row_to_puzzle row"
    using query_result_row[OF assms] by blast
  obtain j where j: "j \<in> set (joined_rows row)" "passes (where_clauses rr ph solved True th) j"
    using row by (auto simp: matching_def)
  have fj: "fst j = row" using j(1) by (auto simp: joined_rows_def split: if_splits)
  have "(\<lambda>(p, t). Some (row_puzzle_id p \<notin> solved)) \<in> set (where_clauses rr ph solved True th)"
    using False by (simp add: where_clauses_def)
  then have "(\<lambda>(p, t). Some (row_puzzle_id p \<notin> solved)) j = Some True"
    using j(2) unfolding passes_iff by blast
  then have "row_puzzle_id row \<notin> solved" using fj by (cases j) auto
  then show ?thesis using p by (simp add: row_to_puzzle_def)
qed

lemma joined_rows_exists: "\<exists>j. j \<in> set (joined_rows p)"
  by (cases "row_themes p") (auto simp: joined_rows_def)

lemma matching_no_clause: "matching [] db = db"
proof -
  have "\<exists>j \<in> set (joined_rows p). passes [] j" for p
    using joined_rows_exists[of p] by (auto simp: passes_def)
  then show ?thesis by (simp add: matching_def)
qed

lemma query_all: "query_puzzle pick db None None solved False None = Inr None \<longleftrightarrow> db = []"
  by (simp add: query_puzzle_def where_clauses_def truthy_def Let_def matching_no_clause)

lemma first_hit_error:
  "first_hit run qs = Inl e \<Longrightarrow> \<forall>q \<in> set qs. \<exists>r. run q = Inr r \<Longrightarrow>
     e = PuzzleNotFoundError msg_no_puzzles \<and> (\<forall>q \<in> set qs. run q = Inr None)"
  by (induction qs) (auto split: sum.splits option.splits)

lemma cascade_tiers_total:
  assumes "1 \<le> d" and "d \<le> 5"
  shows "\<forall>q \<in> set (cascade_tiers d ph th). \<exists>r. run_query pick db solved q = Inr r"
  using assms query_in_range[of _ pick db] query_unconstrained[of pick db]
  by (auto simp: cascade_tiers_def run_query_def)

lemma select_puzzle_refines:
  assumes "1 \<le> d" and "d \<le> 5"
  shows "select_puzzle pick db d ph solved th = select_cascade pick db d ph solved th"
proof -
  obtain r1 where r1: "query_puzzle pick db (Some d) ph solved True th = Inr r1"
    using query_in_range[OF assms] by blast
  obtain r2 where r2: "query_puzzle pick db (Some d) ph solved False th = Inr r2"
    using query_in_range[OF assms] by blast
  obtain r4 where r4: "query_puzzle pick db (Some d) None solved False th = Inr r4"
    using query_in_range[OF assms] by blast
  obtain r5 where r5: "query_puzzle pick db (Some d) ph solved False None = Inr r5"
    using query_in_range[OF assms] by blast
  obtain r6 where r6: "query_puzzle pick db None None solved False None = Inr r6"
    using query_unconstrained by blast
  have lo: "2 \<le> d \<Longrightarrow> \<exists>r. query_puzzle pick db (Some (d - 1)) ph solved False th = Inr r"
    using assms by (intro query_in_range) auto
  have hi: "d \<le> 4 \<Longrightarrow> \<exists>r. query_puzzle pick db (Some (d + 1)) ph solved False th = Inr r"
    using assms by (intro query_in_range) auto
  have same: "solved = {} \<Longrightarrow> r2 = r1"
    using query_no_exclusion[of solved pick db "Some d" ph th] r1 r2 by simp
  show ?thesis
    using r1 r2 r4 r5 r6 lo hi same
    by (cases "2 \<le> d"; cases "d \<le> 4")
       (auto simp: select_puzzle_def select_cascade_def cascade_tiers_def run_query_def
             split: option.splits)
qed

lemma sql_or_Some [simp]: "sql_or (Some a) (Some b) = Some (a \<or> b)"
  by (cases a; cases b) simp_all

lemma sql_or_None [simp]: "sql_or (Some a) None = (if a then Some True else None)"
  by (cases a) simp_all

lemma sql_and_Some [simp]: "sql_and (Some a) (Some b) = Some (a \<and> b)"
  by (cases a; cases b) simp_all

lemma phase_filter_meaning:
  "(\<exists>j \<in> set (joined_rows p). build_phase_filter ''opening'' j = Some True) \<longleftrightarrow>
     (row_opening_tags p \<noteq> [] \<or> (\<exists>t \<in> set (row_themes p). t \<in> set OPENING_THEMES))"
  "(\<exists>j \<in> set (joined_rows p). build_phase_filter ''endgame'' j = Some True) \<longleftrightarrow>
     (row_piece_count p < 12 \<or> (\<exists>t \<in> set (row_themes p). t \<in> set ENDGAME_THEMES))"
  "(\<exists>j \<in> set (joined_rows p). build_phase_filter ''middlegame'' j = Some True) \<longleftrightarrow>
     (12 \<le> row_piece_count p
       \<and> (row_themes p = [] \<or> (\<exists>t \<in> set (row_themes p). t \<notin> set ENDGAME_THEMES)))"
proof -
  have nonempty: "row_themes p \<noteq> [] \<Longrightarrow> \<exists>t. t \<in> set (row_themes p)"
    by (cases "row_themes p") auto
  show "(\<exists>j \<in> set (joined_rows p). build_phase_filter ''opening'' j = Some True) \<longleftrightarrow>
     (row_opening_tags p \<noteq> [] \<or> (\<exists>t \<in> set (row_themes p). t \<in> set OPENING_THEMES))"
    using nonempty
    by (cases "row_opening_tags p = []")
       (auto simp: joined_rows_def build_phase_filter_def sql_in_def)
  show "(\<exists>j \<in> set (joined_rows p). build_phase_filter ''endgame'' j = Some True) \<longleftrightarrow>
     (row_piece_count p < 12 \<or> (\<exists>t \<in> set (row_themes p). t \<in> set ENDGAME_THEMES))"
    using nonempty
    by (cases "row_piece_count p < 12")
       (auto simp: joined_rows_def build_phase_filter_def sql_in_def ENDGAME_PIECE_THRESHOLD_def)
  show "(\<exists>j \<in> set (joined_rows p). build_phase_filter ''middlegame'' j = Some True) \<longleftrightarrow>
     (12 \<le> row_piece_count p
       \<and> (row_themes p = [] \<or> (\<exists>t \<in> set (row_themes p). t \<notin> set ENDGAME_THEMES)))"
    by (cases "12 \<le> row_piece_count p")
       (auto simp: joined_rows_def build_phase_filter_def sql_in_def sql_not_def sql_is_null_def
          ENDGAME_PIECE_THRESHOLD_def)
qed

lemma query_rating_between:
  assumes q: "query_puzzle pick db (Some d) ph solved ex th = Inr (Some p)"
    and r: "get_difficulty_range d = Inr (lo, hi)"
  shows "lo \<le> rating p \<and> rating p \<le> hi"
proof -
  obtain rr row where rr: "map_sum id Some (get_difficulty_range d) = Inr rr"
      and row: "row \<in> set (matching (where_clauses rr ph solved ex th) db)"
      and p: "p = row_to_puzzle row"
    using query_result_row[OF q] by auto
  have rr': "rr = Some (lo, hi)" using rr r by simp
  obtain j where j: "j \<in> set (joined_rows row)" "passes (where_clauses rr ph solved ex th) j"
    using row by (auto simp: matching_def)
  have fj: "fst j = row" using j(1) by (auto simp: joined_rows_def split: if_splits)
  have "(\<lambda>(p, t). Some (lo \<le> row_rating p \<and> row_rating p \<le> hi))
          \<in> set (where_clauses rr ph solved ex th)"
    using rr' by (simp add: where_clauses_def)
  then have "(\<lambda>(p, t). Some (lo \<le> row_rating p \<and> row_rating p \<le> hi)) j = Some True"
    using j(2) unfolding passes_iff by blast
  then have "lo \<le> row_rating row \<and> row_rating row \<le> hi" using fj by (cases j) auto
  then show ?thesis using p by (simp add: row_to_puzzle_def)
qed

lemma rating_to_difficulty_half_open:
  assumes "600 \<le> r" and "r \<le> 3000" and "get_difficulty_range k = Inr (lo, hi)"
  shows "rating_to_difficulty r = k \<longleftrightarrow> lo \<le> r \<and> (r < hi \<or> (k = 5 \<and> r = hi))"
  using assms
  by (auto simp: rating_to_difficulty_def get_difficulty_range_def split: if_splits)

section \<open>The selector: the claims\<close>

text \<open>
  Claim C3. For a difficulty in 1..5, \<open>select_puzzle\<close> is the cascade of the six tiers in
  their fixed order, returning the first tier's puzzle. It returns a puzzle whose id is in the
  exclusion set only when the excluding tier (tier 1) returned nothing. It fails only with
  \<open>PuzzleNotFoundError\<close>, and only when every tier, the unconstrained one included,
  returned nothing, which means the store is empty.
\<close>

theorem select_puzzle_cascade:
  assumes "1 \<le> d" and "d \<le> 5"
  shows "select_puzzle pick db d ph solved th = select_cascade pick db d ph solved th
       \<and> (\<forall>p. select_puzzle pick db d ph solved th = Inr p \<and> puzzle_id p \<in> solved \<longrightarrow>
              query_puzzle pick db (Some d) ph solved True th = Inr None)
       \<and> (\<forall>e. select_puzzle pick db d ph solved th = Inl e \<longrightarrow>
              e = PuzzleNotFoundError msg_no_puzzles
            \<and> (\<forall>q \<in> set (cascade_tiers d ph th). run_query pick db solved q = Inr None)
            \<and> db = [])"
proof -
  note eq = select_puzzle_refines[OF assms, of pick db ph solved th]
  have b: "\<forall>p. select_puzzle pick db d ph solved th = Inr p \<and> puzzle_id p \<in> solved \<longrightarrow>
              query_puzzle pick db (Some d) ph solved True th = Inr None"
  proof (intro allI impI)
    fix p assume h: "select_puzzle pick db d ph solved th = Inr p \<and> puzzle_id p \<in> solved"
    obtain r1 where r1: "query_puzzle pick db (Some d) ph solved True th = Inr r1"
      using query_in_range[OF assms] by blast
    show "query_puzzle pick db (Some d) ph solved True th = Inr None"
    proof (cases r1)
      case None
      then show ?thesis using r1 by simp
    next
      case (Some p')
      then have "select_puzzle pick db d ph solved th = Inr p'"
        using r1 by (simp add: select_puzzle_def)
      then have "p' = p" using h by simp
      then show ?thesis using query_excludes_solved[of pick db "Some d" ph solved th p] r1 Some h
        by simp
    qed
  qed
  have c: "\<forall>e. select_puzzle pick db d ph solved th = Inl e \<longrightarrow>
              e = PuzzleNotFoundError msg_no_puzzles
            \<and> (\<forall>q \<in> set (cascade_tiers d ph th). run_query pick db solved q = Inr None)
            \<and> db = []"
  proof (intro allI impI)
    fix e assume h: "select_puzzle pick db d ph solved th = Inl e"
    then have f: "first_hit (run_query pick db solved) (cascade_tiers d ph th) = Inl e"
      using eq by (simp add: select_cascade_def)
    note t = first_hit_error[OF f cascade_tiers_total[OF assms]]
    have "\<lparr>q_difficulty = None, q_phase = None, q_theme = None, q_exclude = False\<rparr>
            \<in> set (cascade_tiers d ph th)"
      by (simp add: cascade_tiers_def)
    then have "query_puzzle pick db None None solved False None = Inr None"
      using t by (force simp: run_query_def)
    then have "db = []" using query_all by blast
    then show "e = PuzzleNotFoundError msg_no_puzzles
            \<and> (\<forall>q \<in> set (cascade_tiers d ph th). run_query pick db solved q = Inr None)
            \<and> db = []"
      using t by blast
  qed
  show ?thesis using eq b c by blast
qed

theorem select_puzzle_cascade_witness:
  "(1::int) \<le> 2 \<and> (2::int) \<le> 5
 \<and> select_puzzle (\<lambda>ms. 0)
       [example_row ''a'' 1500 20 [''fork''], example_row ''b'' 1900 8 [''endgame'']]
       2 (Some ''middlegame'') {''a''} None
     = select_cascade (\<lambda>ms. 0)
       [example_row ''a'' 1500 20 [''fork''], example_row ''b'' 1900 8 [''endgame'']]
       2 (Some ''middlegame'') {''a''} None
 \<and> select_puzzle (\<lambda>ms. 0)
       [example_row ''a'' 1500 20 [''fork''], example_row ''b'' 1900 8 [''endgame'']]
       2 (Some ''middlegame'') {''a''} None
     = Inr (row_to_puzzle (example_row ''a'' 1500 20 [''fork'']))
 \<and> puzzle_id (row_to_puzzle (example_row ''a'' 1500 20 [''fork''])) \<in> {''a''}
 \<and> query_puzzle (\<lambda>ms. 0)
       [example_row ''a'' 1500 20 [''fork''], example_row ''b'' 1900 8 [''endgame'']]
       (Some 2) (Some ''middlegame'') {''a''} True None
     = Inr None
 \<and> select_puzzle (\<lambda>ms. 0) [] 2 (Some ''middlegame'') {''a''} None
     = Inl (PuzzleNotFoundError msg_no_puzzles)
 \<and> run_query (\<lambda>ms. 0) [] {''a''}
       \<lparr>q_difficulty = None, q_phase = None, q_theme = None, q_exclude = False\<rparr>
     = Inr None"
proof -
  let ?db = "[example_row ''a'' 1500 20 [''fork''], example_row ''b'' 1900 8 [''endgame'']]"
  let ?a = "row_to_puzzle (example_row ''a'' 1500 20 [''fork''])"
  have h1: "(1::int) \<le> 2" and h2: "(2::int) \<le> 5" by simp_all
  note t = select_puzzle_cascade[OF h1 h2, of "\<lambda>ms. 0" ?db "Some ''middlegame''" "{''a''}" None]
  note u = select_puzzle_cascade[OF h1 h2, of "\<lambda>ms. 0" "[]" "Some ''middlegame''" "{''a''}" None]
  have s: "select_puzzle (\<lambda>ms. 0) ?db 2 (Some ''middlegame'') {''a''} None = Inr ?a"
    by code_simp
  have i: "puzzle_id ?a \<in> {''a''}" by code_simp
  have l: "\<lparr>q_difficulty = None, q_phase = None, q_theme = None, q_exclude = False\<rparr>
             \<in> set (cascade_tiers 2 (Some ''middlegame'') None)"
    by (simp add: cascade_tiers_def)
  have a: "query_puzzle (\<lambda>ms. 0) ?db (Some 2) (Some ''middlegame'') {''a''} True None = Inr None"
    using t s i by blast
  have b: "select_puzzle (\<lambda>ms. 0) [] 2 (Some ''middlegame'') {''a''} None
             = Inl (PuzzleNotFoundError msg_no_puzzles)"
    by code_simp
  have c: "run_query (\<lambda>ms. 0) [] {''a''}
             \<lparr>q_difficulty = None, q_phase = None, q_theme = None, q_exclude = False\<rparr> = Inr None"
    using u b l by blast
  show ?thesis using h1 h2 t s i a b c by blast
qed

text \<open>
  Claim C4, evaluated at its failing input. The middlegame clause is tested on each joined
  row, so a puzzle with 20 pieces and the themes \<open>mateIn2\<close> and \<open>fork\<close> passes it through
  its \<open>fork\<close> row, although \<open>mateIn2\<close> is an endgame keyword.
\<close>

theorem middlegame_filter_keeps_endgame_theme:
  "query_puzzle (\<lambda>ms. 0) [example_row ''mix'' 1500 20 [''mateIn2'', ''fork'']]
       None (Some ''middlegame'') {} False None
     = Inr (Some (row_to_puzzle (example_row ''mix'' 1500 20 [''mateIn2'', ''fork''])))
 \<and> ''mateIn2'' \<in> set (themes (row_to_puzzle (example_row ''mix'' 1500 20 [''mateIn2'', ''fork''])))
 \<and> ''mateIn2'' \<in> set ENDGAME_THEMES
 \<and> ENDGAME_PIECE_THRESHOLD \<le> piece_count (row_to_puzzle (example_row ''mix'' 1500 20 [''mateIn2'', ''fork'']))"
  by code_simp

text \<open>
  Claim C5, evaluated at its failing input. The rating filter is \<open>BETWEEN min AND max\<close>,
  closed at both ends. On a store holding one puzzle rated exactly 1200, the first-tier query
  of a request for difficulty 1 (600 to 1200), the query with the requested difficulty itself
  and before any fallback, returns that puzzle, and so \<open>select_puzzle\<close> returns it,
  although \<open>_rating_to_difficulty\<close> puts rating 1200 in bucket 2.
\<close>

theorem boundary_rating_selected_for_lower_level:
  "query_puzzle (\<lambda>ms. 0) [example_row ''p1200'' 1200 20 [''fork'']] (Some 1) None {} True None
     = Inr (Some (row_to_puzzle (example_row ''p1200'' 1200 20 [''fork''])))
 \<and> select_puzzle (\<lambda>ms. 0) [example_row ''p1200'' 1200 20 [''fork'']] 1 None {} None
     = Inr (row_to_puzzle (example_row ''p1200'' 1200 20 [''fork'']))
 \<and> rating (row_to_puzzle (example_row ''p1200'' 1200 20 [''fork''])) = 1200
 \<and> get_difficulty_range 1 = Inr (600, 1200)
 \<and> rating_to_difficulty 1200 = 2"
  by code_simp

end
